theory Spec2Isabelle
  imports Main "HOL-Library.Word" "HOL-Library.Sublist" "HOL-Library.Signed_Division"
begin

section \<open>Go strings and the library functions the migrator calls\<close>

text \<open>
  A Go string is a sequence of bytes and \<open>len\<close> counts bytes; it is modelled as
  \<^typ>\<open>string\<close>, whose characters are bytes. A \<open>[]byte\<close> is a list of 8-bit words and
  the conversion \<open>string(t)\<close> keeps every byte. An \<open>int64\<close> is a 64-bit word read with
  \<^const>\<open>sint\<close>.
\<close>

type_synonym byte = "8 word"
type_synonym int64 = "64 word"

definition string_of_bytes :: "byte list \<Rightarrow> string" where
  "string_of_bytes t = map (\<lambda>b. char_of (unat b)) t"

text \<open>
  \<open>strings.ToUpper\<close>, \<open>strings.ToLower\<close> and \<open>strings.TrimSpace\<close> work on bytes while
  the string is ASCII and hand a string with a byte \<open>\<ge> 0x80\<close> to the Unicode tables of
  the Go runtime. Those tables are not part of the repository: they are the parameter
  \<open>U\<close> of every function that needs them.
\<close>

record unicode =
  MapToUpper :: "string \<Rightarrow> string"
  MapToLower :: "string \<Rightarrow> string"
  TrimFuncIsSpace :: "string \<Rightarrow> string"
  TrimRightFuncIsSpace :: "string \<Rightarrow> string"

definition RuneSelf :: nat where
  "RuneSelf = 128"

definition isASCII :: "string \<Rightarrow> bool" where
  "isASCII s = list_all (\<lambda>c. (of_char c :: nat) < RuneSelf) s"

definition upper_byte :: "char \<Rightarrow> char" where
  "upper_byte c = (if 97 \<le> (of_char c :: nat) \<and> (of_char c :: nat) \<le> 122
                   then char_of ((of_char c :: nat) - 32) else c)"

definition lower_byte :: "char \<Rightarrow> char" where
  "lower_byte c = (if 65 \<le> (of_char c :: nat) \<and> (of_char c :: nat) \<le> 90
                   then char_of ((of_char c :: nat) + 32) else c)"

definition ToUpper :: "unicode \<Rightarrow> string \<Rightarrow> string" where
  "ToUpper U s = (if isASCII s then map upper_byte s else MapToUpper U s)"

definition ToLower :: "unicode \<Rightarrow> string \<Rightarrow> string" where
  "ToLower U s = (if isASCII s then map lower_byte s else MapToLower U s)"

definition asciiSpace :: "char \<Rightarrow> bool" where
  "asciiSpace c = ((of_char c :: nat) \<in> {9, 10, 11, 12, 13, 32})"

text \<open>
  \<open>TrimSpace\<close>: the first loop skips ASCII blanks from the left and falls back to
  \<open>TrimFunc(s[start:], unicode.IsSpace)\<close> at a non-ASCII byte; the second loop does the
  same from the right, falling back to \<open>TrimRightFunc(s[start:stop], unicode.IsSpace)\<close>.
\<close>

text \<open>The second loop reads \<open>s[start:stop]\<close> from its last byte: the argument is reversed.\<close>

fun trimRightLoop :: "unicode \<Rightarrow> string \<Rightarrow> string" where
  "trimRightLoop U [] = []"
| "trimRightLoop U (c # r) =
     (if RuneSelf \<le> (of_char c :: nat) then TrimRightFuncIsSpace U (rev (c # r))
      else if asciiSpace c then trimRightLoop U r
      else rev (c # r))"

fun trimLeftLoop :: "unicode \<Rightarrow> string \<Rightarrow> string" where
  "trimLeftLoop U [] = []"
| "trimLeftLoop U (c # s) =
     (if RuneSelf \<le> (of_char c :: nat) then TrimFuncIsSpace U (c # s)
      else if asciiSpace c then trimLeftLoop U s
      else trimRightLoop U (rev (c # s)))"

definition TrimSpace :: "unicode \<Rightarrow> string \<Rightarrow> string" where
  "TrimSpace U s = trimLeftLoop U s"

definition HasSuffix :: "string \<Rightarrow> string \<Rightarrow> bool" where
  "HasSuffix s suf = (length suf \<le> length s \<and> drop (length s - length suf) s = suf)"

text \<open>\<open>strings.Index\<close>: the position of the first occurrence, or \<open>-1\<close>.\<close>

fun Index :: "string \<Rightarrow> string \<Rightarrow> int" where
  "Index [] sub = (if sub = [] then 0 else - 1)"
| "Index (c # cs) sub =
     (if prefix sub (c # cs) then 0
      else (let r = Index cs sub in if r < 0 then - 1 else r + 1))"

definition Contains :: "string \<Rightarrow> string \<Rightarrow> bool" where
  "Contains s sub = (0 \<le> Index s sub)"

text \<open>
  \<open>strings.ReplaceAll\<close> with a pattern that is not empty, which is how the migrator
  calls it: the occurrences of the pattern are replaced from left to right, without
  overlap. (With an empty pattern Go inserts the replacement around every UTF-8 sequence;
  the function is left unspecified there.)
\<close>

function (sequential) ReplaceAll :: "string \<Rightarrow> string \<Rightarrow> string \<Rightarrow> string" where
  "ReplaceAll [] (p # ps) new = []"
| "ReplaceAll (c # cs) (p # ps) new =
     (if prefix (p # ps) (c # cs) then new @ ReplaceAll (drop (length ps) cs) (p # ps) new
      else c # ReplaceAll cs (p # ps) new)"
  by pat_completeness auto
termination
  by (relation "measure (\<lambda>(s, old, new). length s)") auto

text \<open>\<open>strings.Join\<close>.\<close>

fun Join :: "string list \<Rightarrow> string \<Rightarrow> string" where
  "Join [] sep = []"
| "Join [x] sep = x"
| "Join (x # y # xs) sep = x @ sep @ Join (y # xs) sep"

subsection \<open>The verbs of \<open>fmt.Sprintf\<close>\<close>

text \<open>The digits come from the table \<open>"0123456789abcdef"\<close>, read at a value below the base.\<close>

definition ldigits :: string where
  "ldigits = ''0123456789abcdef''"

definition digit :: "nat \<Rightarrow> char" where
  "digit n = ldigits ! n"

fun fmt_nat :: "nat \<Rightarrow> string" where
  "fmt_nat n = (if n < 10 then [digit n] else fmt_nat (n div 10) @ [digit (n mod 10)])"

declare fmt_nat.simps [simp del]

text \<open>\<open>%d\<close> of a signed integer.\<close>

definition fmt_d :: "int \<Rightarrow> string" where
  "fmt_d i = (if i < 0 then CHR ''-'' # fmt_nat (nat (- i)) else fmt_nat (nat i))"

definition hex_byte :: "byte \<Rightarrow> string" where
  "hex_byte b = [digit (unat b div 16), digit (unat b mod 16)]"

text \<open>\<open>%x\<close> of a byte slice: two lower-case digits for every byte.\<close>

definition fmt_x :: "byte list \<Rightarrow> string" where
  "fmt_x t = concat (map hex_byte t)"

text \<open>The slice expression \<open>t[lo:hi]\<close>, within bounds.\<close>

definition slice :: "'a list \<Rightarrow> nat \<Rightarrow> nat \<Rightarrow> 'a list" where
  "slice t lo hi = take (hi - lo) (drop lo t)"

section \<open>The type mapper\<close>

definition getPostgresType :: "unicode \<Rightarrow> string \<Rightarrow> int64 \<Rightarrow> int64 \<Rightarrow> string" where
  "getPostgresType U mssqlType precision scale =
     (let t = ToUpper U mssqlType in
      if t = ''TINYINT'' \<or> t = ''SMALLINT'' then ''SMALLINT''
      else if t = ''INT'' \<or> t = ''INTEGER'' then ''INTEGER''
      else if t = ''BIGINT'' then ''BIGINT''
      else if t = ''BIT'' then ''BOOLEAN''
      else if t = ''REAL'' then ''REAL''
      else if t = ''FLOAT'' then ''DOUBLE PRECISION''
      else if t = ''DECIMAL'' \<or> t = ''NUMERIC'' \<or> t = ''MONEY'' \<or> t = ''SMALLMONEY'' then
        (if 0 < sint precision
         then ''NUMERIC('' @ fmt_d (sint precision) @ '', '' @ fmt_d (sint scale) @ '')''
         else ''NUMERIC'')
      else if t = ''DATE'' then ''DATE''
      else if t = ''DATETIME'' \<or> t = ''DATETIME2'' \<or> t = ''SMALLDATETIME'' then ''TIMESTAMP''
      else if t = ''TIME'' then ''TIME''
      else if t = ''CHAR'' \<or> t = ''NCHAR'' \<or> t = ''VARCHAR'' \<or> t = ''NVARCHAR''
              \<or> t = ''TEXT'' \<or> t = ''NTEXT'' \<or> t = ''SYSNAME'' then ''TEXT''
      else if t = ''BINARY'' \<or> t = ''VARBINARY'' \<or> t = ''IMAGE'' \<or> t = ''TIMESTAMP_SQL''
        then ''BYTEA''
      else if t = ''UNIQUEIDENTIFIER'' then ''UUID''
      else ''TEXT'')"

section \<open>The table ignore policy\<close>

definition ignoredList :: "string \<rightharpoonup> bool" where
  "ignoredList = map_of
     [(''change_tables'', True), (''ddl_history'', True), (''lsn_time_mapping'', True),
      (''captured_columns'', True), (''index_columns'', True), (''comandos'', True)]"

text \<open>Reading a Go map at a key it does not hold gives the zero value, \<open>false\<close>.\<close>

definition isIgnoredTable :: "unicode \<Rightarrow> string \<Rightarrow> bool" where
  "isIgnoredTable U tableName =
     (let t = ToLower U tableName in
      if t = ''dtproperties'' \<or> t = ''sysdiagrams'' \<or> t = ''systranschemas'' then True
      else if HasSuffix t ''_ct'' \<or> Contains t ''_ct_'' then True
      else (case ignoredList t of None \<Rightarrow> False | Some b \<Rightarrow> b))"

text \<open>
  The loop of \<open>processDatabase\<close> over the catalog's table names: every name is trimmed,
  then kept unless the policy ignores it.
\<close>

fun selectTables :: "unicode \<Rightarrow> string list \<Rightarrow> string list \<Rightarrow> string list" where
  "selectTables U tables [] = tables"
| "selectTables U tables (name # names) =
     (let t = TrimSpace U name in
      if \<not> isIgnoredTable U t then selectTables U (tables @ [t]) names
      else selectTables U tables names)"

section \<open>The value coercer\<close>

text \<open>
  A scanned cell is an \<open>interface{}\<close>: \<open>nil\<close>, a byte slice, a string, a boolean, or a
  value of another dynamic type (\<open>int64\<close>, \<open>float64\<close>, \<open>time.Time\<close>), which the coercer
  only hands on.
\<close>

datatype 'o cell = Nil | Bytes "byte list" | Str string | Bool bool | Other 'o

text \<open>The body of the type switch of \<open>migrateTable\<close>, for one cell and its type name.\<close>

definition coerceCell :: "string \<Rightarrow> 'o cell \<Rightarrow> 'o cell" where
  "coerceCell typeName v =
     (case v of
        Nil \<Rightarrow> Nil
      | Bytes t \<Rightarrow>
          (if typeName = ''BIT'' \<or> typeName = ''BOOLEAN'' then
             (if 0 < length t \<and> t ! 0 = 1 then Bool True else Bool False)
           else if typeName = ''UNIQUEIDENTIFIER'' then
             (if length t = 16 then
                Str (fmt_x (slice t 0 4) @ ''-'' @ fmt_x (slice t 4 6) @ ''-''
                     @ fmt_x (slice t 6 8) @ ''-'' @ fmt_x (slice t 8 10) @ ''-''
                     @ fmt_x (drop 10 t))
              else Nil)
           else if Contains typeName ''BINARY'' \<or> Contains typeName ''IMAGE'' then Bytes t
           else Str (ReplaceAll (string_of_bytes t) [CHR 0x00] [])
          )
      | Str t \<Rightarrow> Str (ReplaceAll t [CHR 0x00] [])
      | Bool t \<Rightarrow> Bool t
      | Other x \<Rightarrow> Other x)"

text \<open>What the driver reports for a column: \<open>DatabaseTypeName()\<close> and \<open>DecimalSize()\<close>.\<close>

record ColumnType =
  DatabaseTypeName :: string
  DecimalPrecision :: int64
  DecimalScale :: int64

definition typeNameAt :: "unicode \<Rightarrow> ColumnType list \<Rightarrow> nat \<Rightarrow> string" where
  "typeNameAt U colTypes i =
     (if i < length colTypes then ToUpper U (DatabaseTypeName (colTypes ! i)) else [])"

text \<open>The inner loop over the scanned values of one row.\<close>

definition coerceRow :: "unicode \<Rightarrow> ColumnType list \<Rightarrow> 'o cell list \<Rightarrow> 'o cell list" where
  "coerceRow U colTypes values0 =
     map (\<lambda>(i, v). coerceCell (typeNameAt U colTypes i) v) (enumerate 0 values0)"

section \<open>The schema introspector\<close>

text \<open>
  The source connection \<open>ms\<close>, as far as the copier of one table reads it. The answers
  of the source engine are inputs of the model, keyed by the table name the query is
  made for: the error of each attempt to open the cursor (\<open>None\<close> for \<open>nil\<close>), the
  columns and their types, the rows the cursor delivers (a row whose \<open>Scan\<close> fails is
  \<open>ScanError\<close>), and the rows of the two catalog queries (\<open>None\<close> when the query itself
  fails).
\<close>

datatype 'o scanned = ScanError | Scanned "'o cell list"

datatype fk_row = FkScanError | FkRow string string string string

record 'o mssql =
  select_err :: "string \<Rightarrow> nat \<Rightarrow> string option"
  select_cols :: "string \<Rightarrow> string list"
  select_colTypes :: "string \<Rightarrow> ColumnType list"
  select_rows :: "string \<Rightarrow> 'o scanned list"
  pk_rows :: "string \<Rightarrow> string option list option"
  fk_rows :: "string \<Rightarrow> fk_row list option"

record ForeignKeySQL =
  ConstraintName :: string
  SQL :: string

text \<open>The format \<open>"%s"\<close>: the argument between two double quotes.\<close>

definition quoted :: "string \<Rightarrow> string" where
  "quoted s = CHR 0x22 # s @ [CHR 0x22]"

text \<open>\<open>getPrimaryKeyColumns\<close>: a row whose \<open>Scan\<close> fails still appends the empty \<open>col\<close>.\<close>

definition getPrimaryKeyColumns :: "'o mssql \<Rightarrow> string \<Rightarrow> string list" where
  "getPrimaryKeyColumns db tableName =
     (case pk_rows db tableName of
        None \<Rightarrow> []
      | Some rs \<Rightarrow> map (\<lambda>r. case r of None \<Rightarrow> [] | Some col \<Rightarrow> col) rs)"

definition fkName :: "string \<Rightarrow> string \<Rightarrow> string \<Rightarrow> string" where
  "fkName tableName col refTable =
     (let pgFkName = ''fk_'' @ tableName @ ''_'' @ col @ ''_'' @ refTable
      in if 63 < length pgFkName then take 63 pgFkName else pgFkName)"

definition fkSQL :: "string \<Rightarrow> string \<Rightarrow> string \<Rightarrow> string \<Rightarrow> string \<Rightarrow> string \<Rightarrow> string" where
  "fkSQL schema tableName pgFkName col refTable refCol =
     ''ALTER TABLE '' @ quoted schema @ ''.'' @ quoted tableName
     @ '' ADD CONSTRAINT '' @ quoted pgFkName
     @ '' FOREIGN KEY ('' @ quoted col @ '') REFERENCES ''
     @ quoted schema @ ''.'' @ quoted refTable @ '' ('' @ quoted refCol @ '')''"

fun fkLoop :: "string \<Rightarrow> string \<Rightarrow> ForeignKeySQL list \<Rightarrow> fk_row list \<Rightarrow> ForeignKeySQL list" where
  "fkLoop schema tableName fks [] = fks"
| "fkLoop schema tableName fks (FkScanError # rs) = fkLoop schema tableName fks rs"
| "fkLoop schema tableName fks (FkRow fkn col refTable refCol # rs) =
     (let pgFkName = fkName tableName col refTable;
          sql = fkSQL schema tableName pgFkName col refTable refCol
      in fkLoop schema tableName (fks @ [\<lparr>ConstraintName = pgFkName, SQL = sql\<rparr>]) rs)"

definition getForeignKeys :: "'o mssql \<Rightarrow> string \<Rightarrow> string \<Rightarrow> ForeignKeySQL list" where
  "getForeignKeys db schema tableName =
     (case fk_rows db tableName of
        None \<Rightarrow> []
      | Some rs \<Rightarrow> fkLoop schema tableName [] rs)"

section \<open>The table copier\<close>

definition BatchSize :: int where
  "BatchSize = 25000"

definition MaxRetries :: nat where
  "MaxRetries = 10"

text \<open>
  The target connection \<open>pg\<close>. What the target engine answers is an input of the model
  as well: the error of the \<open>CREATE TABLE\<close> statement, whether the \<open>k\<close>-th transaction
  can be begun, whether its insert statement can be prepared, whether the insert of the
  \<open>n\<close>-th row the cursor delivered succeeds, and whether the \<open>k\<close>-th transaction commits.
  A row is in the target table when its insert and the commit of its transaction
  both returned no error.
\<close>

record 'o postgres =
  create_err :: "string \<Rightarrow> string option"
  begin_ok :: "nat \<Rightarrow> bool"
  prepare_ok :: "nat \<Rightarrow> string \<Rightarrow> bool"
  insert_ok :: "nat \<Rightarrow> 'o cell list \<Rightarrow> bool"
  commit_ok :: "nat \<Rightarrow> bool"

text \<open>
  The retry loop that opens the cursor: \<open>attempt\<close> counts from 1, \<open>n\<close> attempts are
  left, \<open>err\<close> is the error of the last attempt. The pauses between attempts are not
  modelled.
\<close>

fun queryRetry :: "(nat \<Rightarrow> string option) \<Rightarrow> nat \<Rightarrow> nat \<Rightarrow> string option \<Rightarrow> string option" where
  "queryRetry q attempt 0 err = err"
| "queryRetry q attempt (Suc n) err =
     (case q attempt of
        None \<Rightarrow> None
      | Some e \<Rightarrow> queryRetry q (Suc attempt) n (Some e))"

text \<open>The column definitions of \<open>createSQL\<close>; \<open>i\<close> is the index of the first column left.\<close>

fun columnDefs :: "unicode \<Rightarrow> ColumnType list \<Rightarrow> nat \<Rightarrow> nat \<Rightarrow> string list \<Rightarrow> string" where
  "columnDefs U colTypes n i [] = []"
| "columnDefs U colTypes n i (c # cols) =
     (let pgType = (if i < length colTypes
                    then getPostgresType U (DatabaseTypeName (colTypes ! i))
                           (DecimalPrecision (colTypes ! i)) (DecimalScale (colTypes ! i))
                    else ''TEXT'');
          safeCol = TrimSpace U (ReplaceAll c [CHR 0x22] [])
      in quoted safeCol @ '' '' @ pgType
         @ (if int i < int n - 1 then '', '' else []) @ columnDefs U colTypes n (Suc i) cols)"

definition dropSQL :: "string \<Rightarrow> string \<Rightarrow> string" where
  "dropSQL schema table =
     ''DROP TABLE IF EXISTS '' @ quoted schema @ ''.'' @ quoted table @ '' CASCADE''"

definition createSQL :: "unicode \<Rightarrow> string \<Rightarrow> string \<Rightarrow> string list \<Rightarrow> ColumnType list \<Rightarrow> string" where
  "createSQL U schema table cols colTypes =
     ''CREATE TABLE '' @ quoted schema @ ''.'' @ quoted table @ '' (''
     @ columnDefs U colTypes (length cols) 0 cols @ '')''"

definition insertQ :: "string \<Rightarrow> string \<Rightarrow> nat \<Rightarrow> string" where
  "insertQ schema table n =
     ''INSERT INTO '' @ quoted schema @ ''.'' @ quoted table @ '' VALUES (''
     @ Join (map (\<lambda>i. CHR ''$'' # fmt_d (int i + 1)) [0..<n]) '','' @ '')''"

definition pkName :: "string \<Rightarrow> string \<Rightarrow> string" where
  "pkName schema table =
     (let pkn = ''pk_'' @ schema @ ''_'' @ table
      in if 63 < length pkn then take 63 pkn else pkn)"

definition pkSQL :: "string \<Rightarrow> string \<Rightarrow> string list \<Rightarrow> string" where
  "pkSQL schema table pkCols =
     ''ALTER TABLE '' @ quoted schema @ ''.'' @ quoted table
     @ '' ADD CONSTRAINT '' @ quoted (pkName schema table)
     @ '' PRIMARY KEY ('' @ quoted (Join pkCols (CHR 0x22 # '', '' @ [CHR 0x22])) @ '')''"

text \<open>
  One scanned row has a cell for every column. The state of the row loop: the counter,
  the number of the open transaction, whether
  \<open>stmt\<close> holds a statement (it is \<open>nil\<close> after a failed \<open>Prepare\<close>, whose error is
  dropped), the rows inserted in the open transaction, the rows of the committed ones,
  and whether the loop ended in a panic: \<open>stmt.Exec\<close> on a \<open>nil\<close> statement and
  \<open>tx.Exec\<close> on a \<open>nil\<close> transaction dereference a nil pointer.
\<close>

record 'o copier =
  count :: int64
  tx :: nat
  stmt :: bool
  pending :: "'o cell list list"
  committed :: "'o cell list list"
  panicked :: bool

fun copyRows :: "unicode \<Rightarrow> ColumnType list \<Rightarrow> 'o postgres \<Rightarrow> string \<Rightarrow> nat
                 \<Rightarrow> 'o scanned list \<Rightarrow> 'o copier \<Rightarrow> 'o copier" where
  "copyRows U colTypes pg q n [] st = st"
| "copyRows U colTypes pg q n (ScanError # rs) st = copyRows U colTypes pg q (Suc n) rs st"
| "copyRows U colTypes pg q n (Scanned values0 # rs) st =
     (let finalVals = coerceRow U colTypes values0 in
      if \<not> stmt st then st\<lparr>panicked := True\<rparr>
      else
        let pending1 = (if insert_ok pg n finalVals then pending st @ [finalVals]
                        else pending st);
            count1 = count st + 1
        in if sint count1 smod BatchSize = 0 then
             (let committed1 = (if commit_ok pg (tx st) then committed st @ pending1
                                else committed st)
              in if \<not> begin_ok pg (Suc (tx st))
                 then st\<lparr>count := count1, pending := [], committed := committed1,
                         panicked := True\<rparr>
                 else copyRows U colTypes pg q (Suc n) rs
                        \<lparr>count = count1, tx = Suc (tx st),
                         stmt = prepare_ok pg (Suc (tx st)) q,
                         pending = [], committed = committed1, panicked = False\<rparr>)
           else copyRows U colTypes pg q (Suc n) rs (st\<lparr>count := count1, pending := pending1\<rparr>))"

text \<open>
  What one call of \<open>migrateTable\<close> leaves behind: how it ended, the lines it logged
  (without the time stamp of the logger), the statements it sent with \<open>pg.Exec\<close>, the
  rows it stored in the target table, and the foreign keys it returned. The copier
  inserts only into the table it has just created, so after a completed copy the rows
  it stored are the rows of the target table. A panic ends the call without a return
  value: the foreign keys are then empty.
\<close>

datatype ending = Completed | ReadFailed | CreateFailed | Panicked

record 'o migration =
  ending :: ending
  logged :: "string list"
  statements :: "string list"
  stored :: "'o cell list list"
  fks :: "ForeignKeySQL list"

definition migrateTable :: "unicode \<Rightarrow> string \<Rightarrow> string \<Rightarrow> 'o mssql \<Rightarrow> 'o postgres \<Rightarrow> 'o migration" where
  "migrateTable U schema table ms pg =
     (case queryRetry (select_err ms table) 1 MaxRetries None of
        Some e \<Rightarrow>
          \<lparr>ending = ReadFailed,
           logged = [''[ERROR] [FINAL] '' @ table @ '': No se pudo leer origen: '' @ e],
           statements = [], stored = [], fks = []\<rparr>
      | None \<Rightarrow>
          (let cols = select_cols ms table;
               colTypes = select_colTypes ms table;
               ddl = [dropSQL schema table, createSQL U schema table cols colTypes]
           in case create_err pg (createSQL U schema table cols colTypes) of
                Some e \<Rightarrow>
                  \<lparr>ending = CreateFailed,
                   logged = [''[ERROR] '' @ table @ '': Fallo create table: '' @ e],
                   statements = ddl, stored = [], fks = []\<rparr>
              | None \<Rightarrow>
                  if \<not> begin_ok pg 0
                  then \<lparr>ending = Panicked, logged = [], statements = ddl, stored = [], fks = []\<rparr>
                  else
                    (let q = insertQ schema table (length cols);
                         stmt0 = prepare_ok pg 0 q;
                         st = copyRows U colTypes pg q 0 (select_rows ms table)
                                \<lparr>count = 0, tx = 0, stmt = stmt0, pending = [],
                                 committed = [], panicked = False\<rparr>
                     in if panicked st
                        then \<lparr>ending = Panicked, logged = [], statements = ddl,
                              stored = committed st, fks = []\<rparr>
                        else
                          (let rows = (if commit_ok pg (tx st) then committed st @ pending st
                                       else committed st);
                               pkCols = getPrimaryKeyColumns ms table;
                               pk = (if 0 < length pkCols then [pkSQL schema table pkCols] else []);
                               ok = (if 0 < sint (count st)
                                     then [''[OK] '' @ table @ '': '' @ fmt_d (sint (count st))
                                           @ '' filas'']
                                     else [])
                           in if stmt0
                              then \<lparr>ending = Completed, logged = ok, statements = ddl @ pk,
                                    stored = rows, fks = getForeignKeys ms schema table\<rparr>
                              else \<lparr>ending = Panicked, logged = ok, statements = ddl @ pk,
                                    stored = rows, fks = []\<rparr>))))"

section \<open>The notions of the specification\<close>

text \<open>
  The canonical text of a UUID: 36 characters, a dash at the positions 8, 13, 18 and 23,
  lower-case hexadecimal digits everywhere else (the groups 8-4-4-4-12).
\<close>

definition lower_hex :: "string \<Rightarrow> bool" where
  "lower_hex s = list_all (\<lambda>c. c \<in> set ''0123456789abcdef'') s"

definition canonical_uuid :: "string \<Rightarrow> bool" where
  "canonical_uuid u =
     (length u = 36 \<and> lower_hex (take 8 u) \<and> u ! 8 = CHR ''-''
      \<and> lower_hex (take 4 (drop 9 u)) \<and> u ! 13 = CHR ''-''
      \<and> lower_hex (take 4 (drop 14 u)) \<and> u ! 18 = CHR ''-''
      \<and> lower_hex (take 4 (drop 19 u)) \<and> u ! 23 = CHR ''-''
      \<and> lower_hex (drop 24 u))"

text \<open>Reading hexadecimal text back: two digits make a byte, the high digit first.\<close>

definition hexval :: "char \<Rightarrow> nat" where
  "hexval c = length (takeWhile (\<lambda>d. d \<noteq> c) ''0123456789abcdef'')"

fun unhex :: "string \<Rightarrow> byte list" where
  "unhex (a # b # r) = word_of_nat (hexval a * 16 + hexval b) # unhex r"
| "unhex r = []"

text \<open>
  The table of the type mapper, row by row. A row gives a fixed declaration, or
  \<open>NUMERIC(p,s)\<close> when \<open>p > 0\<close> and \<open>NUMERIC\<close> otherwise; a name the table does not list
  gives \<open>TEXT\<close>. The text of \<open>NUMERIC(p,s)\<close> has a blank after the comma.
\<close>

datatype target_decl = Plain string | NumericPS

definition type_table :: "(string \<times> target_decl) list" where
  "type_table =
     [(''TINYINT'', Plain ''SMALLINT''), (''SMALLINT'', Plain ''SMALLINT''),
      (''INT'', Plain ''INTEGER''), (''INTEGER'', Plain ''INTEGER''),
      (''BIGINT'', Plain ''BIGINT''),
      (''BIT'', Plain ''BOOLEAN''),
      (''REAL'', Plain ''REAL''),
      (''FLOAT'', Plain ''DOUBLE PRECISION''),
      (''DECIMAL'', NumericPS), (''NUMERIC'', NumericPS), (''MONEY'', NumericPS),
      (''SMALLMONEY'', NumericPS),
      (''DATE'', Plain ''DATE''),
      (''DATETIME'', Plain ''TIMESTAMP''), (''DATETIME2'', Plain ''TIMESTAMP''),
      (''SMALLDATETIME'', Plain ''TIMESTAMP''),
      (''TIME'', Plain ''TIME''),
      (''CHAR'', Plain ''TEXT''), (''NCHAR'', Plain ''TEXT''), (''VARCHAR'', Plain ''TEXT''),
      (''NVARCHAR'', Plain ''TEXT''), (''TEXT'', Plain ''TEXT''), (''NTEXT'', Plain ''TEXT''),
      (''SYSNAME'', Plain ''TEXT''),
      (''BINARY'', Plain ''BYTEA''), (''VARBINARY'', Plain ''BYTEA''), (''IMAGE'', Plain ''BYTEA''),
      (''TIMESTAMP_SQL'', Plain ''BYTEA''),
      (''UNIQUEIDENTIFIER'', Plain ''UUID'')]"

definition table_type :: "string \<Rightarrow> int \<Rightarrow> int \<Rightarrow> string" where
  "table_type t p s =
     (case map_of type_table t of
        None \<Rightarrow> ''TEXT''
      | Some (Plain d) \<Rightarrow> d
      | Some NumericPS \<Rightarrow>
          (if 0 < p then ''NUMERIC('' @ fmt_d p @ '', '' @ fmt_d s @ '')'' else ''NUMERIC''))"

text \<open>
  The ignore policy, said of the lower-cased trimmed name: a system or diagram table, a
  name that ends with \<open>_ct\<close> or contains \<open>_ct_\<close>, or a change-tracking catalog.
\<close>

definition skipped :: "string \<Rightarrow> bool" where
  "skipped l =
     (l \<in> {''dtproperties'', ''sysdiagrams'', ''systranschemas''}
      \<or> suffix ''_ct'' l \<or> sublist ''_ct_'' l
      \<or> l \<in> {''change_tables'', ''ddl_history'', ''lsn_time_mapping'', ''captured_columns'',
               ''index_columns'', ''comandos''})"

text \<open>
  A foreign-key statement in general: the origin table and the referenced table are
  qualified names, each a namespace and a table.
\<close>

type_synonym qualified_name = "string \<times> string"

definition foreign_key_statement ::
  "qualified_name \<Rightarrow> string \<Rightarrow> string \<Rightarrow> qualified_name \<Rightarrow> string \<Rightarrow> string" where
  "foreign_key_statement origin name col referenced ref_col =
     ''ALTER TABLE '' @ quoted (fst origin) @ ''.'' @ quoted (snd origin)
     @ '' ADD CONSTRAINT '' @ quoted name @ '' FOREIGN KEY ('' @ quoted col @ '') REFERENCES ''
     @ quoted (fst referenced) @ ''.'' @ quoted (snd referenced) @ '' ('' @ quoted ref_col @ '')''"

text \<open>
  The foreign key that one row of the catalog stands for: its name is
  \<open>fk_<table>_<column>_<referenced table>\<close> of that row, cut to 63 characters, and its
  statement carries that name. A row that cannot be scanned stands for none.
\<close>

definition catalog_foreign_key :: "string \<Rightarrow> string \<Rightarrow> fk_row \<Rightarrow> ForeignKeySQL list" where
  "catalog_foreign_key ns tbl r =
     (case r of
        FkScanError \<Rightarrow> []
      | FkRow fkn col ref_tbl ref_col \<Rightarrow>
          [\<lparr>ConstraintName = take 63 (''fk_'' @ tbl @ ''_'' @ col @ ''_'' @ ref_tbl),
            SQL = foreign_key_statement (ns, tbl)
                    (take 63 (''fk_'' @ tbl @ ''_'' @ col @ ''_'' @ ref_tbl)) col
                    (ns, ref_tbl) ref_col\<rparr>])"

text \<open>A primary-key statement in general, for a table, a constraint name and columns.\<close>

definition primary_key_statement :: "qualified_name \<Rightarrow> string \<Rightarrow> string list \<Rightarrow> string" where
  "primary_key_statement origin name cols =
     ''ALTER TABLE '' @ quoted (fst origin) @ ''.'' @ quoted (snd origin)
     @ '' ADD CONSTRAINT '' @ quoted name
     @ '' PRIMARY KEY ('' @ quoted (Join cols (CHR 0x22 # '', '' @ [CHR 0x22])) @ '')''"




subsection \<open>Inputs for the examples\<close>

text \<open>
  A source table with two columns, one row, a primary key and one foreign key; a target
  that accepts everything, and one that rejects every insert. The examples are ASCII, so
  the Unicode tables are never consulted: \<open>no_unicode\<close> leaves every string as it is.
\<close>

definition one_row_source :: "unit mssql" where
  "one_row_source =
     \<lparr>select_err = (\<lambda>t attempt. None),
      select_cols = (\<lambda>t. [''id'', ''name'']),
      select_colTypes = (\<lambda>t. [\<lparr>DatabaseTypeName = ''int'', DecimalPrecision = 0, DecimalScale = 0\<rparr>,
                              \<lparr>DatabaseTypeName = ''nvarchar'', DecimalPrecision = 0,
                               DecimalScale = 0\<rparr>]),
      select_rows = (\<lambda>t. [Scanned [Other (), Str ''a'']]),
      pk_rows = (\<lambda>t. Some [Some ''id'']),
      fk_rows = (\<lambda>t. Some [FkRow ''FK_t_owner'' ''owner_id'' ''owners'' ''id''])\<rparr>"

definition accepting_target :: "unit postgres" where
  "accepting_target =
     \<lparr>create_err = (\<lambda>sql. None), begin_ok = (\<lambda>k. True), prepare_ok = (\<lambda>k q. True),
      insert_ok = (\<lambda>n row. True), commit_ok = (\<lambda>k. True)\<rparr>"




definition no_unicode :: unicode where
  "no_unicode = \<lparr>MapToUpper = (\<lambda>s. s), MapToLower = (\<lambda>s. s), TrimFuncIsSpace = (\<lambda>s. s),
          TrimRightFuncIsSpace = (\<lambda>s. s)\<rparr>"

section \<open>The library functions\<close>

lemma ReplaceAll_single: "ReplaceAll s [c] [] = filter (\<lambda>x. x \<noteq> c) s"
  by (induction s) auto

lemma Index_nonneg_iff: "0 \<le> Index s sub \<longleftrightarrow> sublist sub s"
  by (induction s) (auto simp: Let_def sublist_Cons_right)

lemma Contains_iff: "Contains s sub \<longleftrightarrow> (\<exists>p q. s = p @ sub @ q)"
  by (simp add: Contains_def Index_nonneg_iff sublist_def)

lemma HasSuffix_iff: "HasSuffix s suf \<longleftrightarrow> (\<exists>p. s = p @ suf)"
proof
  assume "HasSuffix s suf"
  then have "s = take (length s - length suf) s @ suf"
    by (metis HasSuffix_def append_take_drop_id)
  then show "\<exists>p. s = p @ suf" ..
next
  assume "\<exists>p. s = p @ suf"
  then show "HasSuffix s suf" by (auto simp: HasSuffix_def)
qed

subsection \<open>Hexadecimal text\<close>

lemma length_ldigits: "length ldigits = 16"
  by (simp add: ldigits_def)

lemma digit_hex: "n < 16 \<Longrightarrow> digit n \<in> set ldigits"
  unfolding digit_def by (rule nth_mem) (simp add: length_ldigits)

lemma length_fmt_x: "length (fmt_x t) = 2 * length t"
  by (induction t) (simp_all add: fmt_x_def hex_byte_def)

lemma set_hex_byte: "set (hex_byte b) \<subseteq> set ldigits"
proof -
  have "unat b < 256" using unsigned_less [of b, where 'a = nat] by simp
  then have "unat b div 16 < 16" by simp
  then show ?thesis by (simp add: hex_byte_def digit_hex)
qed

lemma set_fmt_x: "set (fmt_x t) \<subseteq> set ldigits"
  using set_hex_byte by (auto simp: fmt_x_def)

lemma null_not_digit: "CHR 0x00 \<notin> set ldigits"
  by (simp add: ldigits_def)

lemma lower_hex_fmt_x: "lower_hex (fmt_x t)"
proof -
  have "\<forall>c \<in> set (fmt_x t). c \<in> set ldigits"
    using set_fmt_x by blast
  then show ?thesis
    unfolding lower_hex_def list_all_iff ldigits_def .
qed

lemma fmt_x_append: "fmt_x (a @ b) = fmt_x a @ fmt_x b"
  by (simp add: fmt_x_def)

lemma dash_not_digit: "CHR ''-'' \<notin> set (fmt_x t)"
  using set_fmt_x [of t] by (auto simp: ldigits_def)

lemma filter_dash_fmt_x: "filter (\<lambda>c. c \<noteq> CHR ''-'') (fmt_x t) = fmt_x t"
  by (rule filter_True) (use dash_not_digit [of t] in blast)

lemma slices_16:
  "slice t 0 4 @ slice t 4 6 @ slice t 6 8 @ slice t 8 10 @ drop 10 t = t"
proof -
  have a: "take 4 t @ drop 4 t = t" by simp
  have b: "take 2 (drop 4 t) @ drop 6 t = drop 4 t"
    using append_take_drop_id [of 2 "drop 4 t"] by simp
  have c: "take 2 (drop 6 t) @ drop 8 t = drop 6 t"
    using append_take_drop_id [of 2 "drop 6 t"] by simp
  have d: "take 2 (drop 8 t) @ drop 10 t = drop 8 t"
    using append_take_drop_id [of 2 "drop 8 t"] by simp
  show ?thesis
    by (simp add: slice_def a b c d)
qed


lemma takeWhile_nth_distinct:
  "distinct xs \<Longrightarrow> n < length xs \<Longrightarrow> length (takeWhile (\<lambda>d. d \<noteq> xs ! n) xs) = n"
proof (induction xs arbitrary: n)
  case Nil
  then show ?case by simp
next
  case (Cons x xs)
  show ?case
  proof (cases n)
    case 0
    then show ?thesis by simp
  next
    case (Suc m)
    with Cons.prems have "xs ! m \<in> set xs" and "x \<notin> set xs" by auto
    then have "x \<noteq> xs ! m" by blast
    with Suc Cons show ?thesis by simp
  qed
qed

lemma hexval_digit:
  assumes "n < 16"
  shows "hexval (digit n) = n"
proof -
  have "distinct ldigits" and "n < length ldigits"
    using assms by (simp_all add: ldigits_def)
  then have "length (takeWhile (\<lambda>d. d \<noteq> ldigits ! n) ldigits) = n"
    by (rule takeWhile_nth_distinct)
  then show ?thesis
    by (simp add: hexval_def digit_def ldigits_def)
qed

lemma unhex_hex_byte: "unhex (hex_byte b @ r) = b # unhex r"
proof -
  have lt: "unat b < 256" using unsigned_less [of b, where 'a = nat] by simp
  then have hi: "unat b div 16 < 16" by simp
  have "word_of_nat (unat b div 16 * 16 + unat b mod 16) = b" by simp
  then show ?thesis
    by (simp add: hex_byte_def hexval_digit hi)
qed

lemma unhex_fmt_x: "unhex (fmt_x t) = t"
  by (induction t) (simp_all add: fmt_x_def unhex_hex_byte)

lemma uuid_shape:
  assumes "length t = 16"
  shows "canonical_uuid (fmt_x (slice t 0 4) @ ''-'' @ fmt_x (slice t 4 6) @ ''-''
                     @ fmt_x (slice t 6 8) @ ''-'' @ fmt_x (slice t 8 10) @ ''-''
                     @ fmt_x (drop 10 t))"
  using assms
  by (simp add: canonical_uuid_def length_fmt_x slice_def nth_append lower_hex_fmt_x)

lemma uuid_digits:
  "filter (\<lambda>c. c \<noteq> CHR ''-'') (fmt_x (slice t 0 4) @ ''-'' @ fmt_x (slice t 4 6) @ ''-''
                     @ fmt_x (slice t 6 8) @ ''-'' @ fmt_x (slice t 8 10) @ ''-''
                     @ fmt_x (drop 10 t)) = fmt_x t"
proof -
  have "fmt_x t = fmt_x (slice t 0 4 @ slice t 4 6 @ slice t 6 8 @ slice t 8 10 @ drop 10 t)"
    by (simp only: slices_16)
  then show ?thesis
    by (simp add: filter_dash_fmt_x fmt_x_append)
qed


section \<open>The table ignore policy\<close>

lemma Contains_sublist: "Contains s sub = sublist sub s"
  by (simp add: Contains_def Index_nonneg_iff)

lemma HasSuffix_suffix: "HasSuffix s suf = suffix suf s"
  by (simp add: HasSuffix_iff suffix_def)

lemma isIgnoredTable_skipped: "isIgnoredTable U t = skipped (ToLower U t)"
  by (simp add: isIgnoredTable_def skipped_def ignoredList_def Let_def Contains_sublist
      HasSuffix_suffix)

lemma selectTables_filter:
  "selectTables U tables names
     = tables @ filter (\<lambda>t. \<not> skipped (ToLower U t)) (map (TrimSpace U) names)"
  by (induction names arbitrary: tables) (simp_all add: Let_def isIgnoredTable_skipped)

text \<open>
  Claim C5. For every table name of the catalog, the table is skipped if and only if the
  lower-cased trimmed name is \<open>dtproperties\<close>, \<open>sysdiagrams\<close> or \<open>systranschemas\<close>, ends
  with \<open>_ct\<close>, contains \<open>_ct_\<close>, or is one of \<open>change_tables\<close>, \<open>ddl_history\<close>,
  \<open>lsn_time_mapping\<close>, \<open>captured_columns\<close>, \<open>index_columns\<close>, \<open>comandos\<close>; the tables
  handed to the workers are the trimmed names that are not skipped, in catalog order.
\<close>

theorem ignore_policy:
  "isIgnoredTable U (TrimSpace U name) = skipped (ToLower U (TrimSpace U name))
   \<and> selectTables U [] names
       = filter (\<lambda>t. \<not> skipped (ToLower U t)) (map (TrimSpace U) names)"
  by (simp add: isIgnoredTable_skipped selectTables_filter)

theorem ignore_policy_witness:
  "isIgnoredTable no_unicode (TrimSpace no_unicode ''  Orders_CT '')
   \<and> skipped ''orders_ct''
   \<and> \<not> isIgnoredTable no_unicode (TrimSpace no_unicode ''Orders'')
   \<and> selectTables no_unicode [] [''  a '', ''x_ct_y'', ''Comandos   '', ''b''] = [''a'', ''b'']"
proof -
  have l1: "ToLower no_unicode (TrimSpace no_unicode ''  Orders_CT '') = ''orders_ct''" by code_simp
  have l2: "ToLower no_unicode (TrimSpace no_unicode ''Orders'') = ''orders''" by code_simp
  have s1: "skipped ''orders_ct''" by (simp add: skipped_def suffix_def)
  have s2: "\<not> skipped ''orders''" by code_simp
  have s3: "filter (\<lambda>t. \<not> skipped (ToLower no_unicode t))
              (map (TrimSpace no_unicode) [''  a '', ''x_ct_y'', ''Comandos   '', ''b'']) = [''a'', ''b'']"
    by code_simp
  from ignore_policy [of no_unicode "''  Orders_CT ''" "[''  a '', ''x_ct_y'', ''Comandos   '', ''b'']"]
    ignore_policy [of no_unicode "''Orders''" "[]"] l1 l2 s1 s2 s3
  show ?thesis by simp
qed

section \<open>The type mapper\<close>

text \<open>
  Claim C2. For every source type name, precision and scale, the type mapper returns
  what the table of the specification gives for the upper-cased name: the listed
  declaration, \<open>NUMERIC(p, s)\<close> or \<open>NUMERIC\<close> for the four numeric names as \<open>p > 0\<close> or
  not, and \<open>TEXT\<close> for every name the table does not list.
\<close>

theorem type_mapper_table:
  "getPostgresType U mssqlType precision scale
     = table_type (ToUpper U mssqlType) (sint precision) (sint scale)
   \<and> (ToUpper U mssqlType \<notin> fst ` set type_table
        \<longrightarrow> getPostgresType U mssqlType precision scale = ''TEXT'')"
  by (simp add: getPostgresType_def table_type_def type_table_def Let_def)


theorem type_mapper_table_witness:
  "getPostgresType no_unicode ''decimal'' 18 4 = ''NUMERIC(18, 4)''
   \<and> getPostgresType no_unicode ''Money'' 0 2 = ''NUMERIC''
   \<and> ToUpper no_unicode ''geography'' \<notin> fst ` set type_table
   \<and> getPostgresType no_unicode ''geography'' 0 0 = ''TEXT''"
proof -
  have a: "table_type (ToUpper no_unicode ''decimal'') (sint (18 :: int64)) (sint (4 :: int64))
             = ''NUMERIC(18, 4)''"
    by code_simp
  have b: "table_type (ToUpper no_unicode ''Money'') (sint (0 :: int64)) (sint (2 :: int64)) = ''NUMERIC''"
    by code_simp
  have c: "ToUpper no_unicode ''geography'' \<notin> fst ` set type_table"
    by code_simp
  have "getPostgresType no_unicode ''decimal'' 18 4 = ''NUMERIC(18, 4)''"
    using type_mapper_table [of no_unicode "''decimal''" 18 4, THEN conjunct1] a by (rule trans)
  moreover have "getPostgresType no_unicode ''Money'' 0 2 = ''NUMERIC''"
    using type_mapper_table [of no_unicode "''Money''" 0 2, THEN conjunct1] b by (rule trans)
  moreover have "getPostgresType no_unicode ''geography'' 0 0 = ''TEXT''"
    using type_mapper_table [of no_unicode "''geography''" 0 0] c by blast
  ultimately show ?thesis using c by blast
qed

section \<open>The value coercer\<close>

lemma null_not_in_fmt_x: "CHR 0x00 \<notin> set (fmt_x t)"
  using set_fmt_x [of t] null_not_digit by blast

lemma coerceCell_text_clean:
  assumes "coerceCell typeName v = Str r"
  shows "CHR 0x00 \<notin> set r"
  using assms
  by (cases v) (auto simp: coerceCell_def ReplaceAll_single null_not_in_fmt_x split: if_splits)

lemma coerceRow_nth:
  assumes "i < length vs"
  shows "coerceRow U colTypes vs ! i = coerceCell (typeNameAt U colTypes i) (vs ! i)"
  using assms by (simp add: coerceRow_def nth_enumerate_eq)

lemma coerceRow_text_clean:
  assumes "Str r \<in> set (coerceRow U colTypes vs)"
  shows "CHR 0x00 \<notin> set r"
proof -
  from assms obtain i where i: "i < length (coerceRow U colTypes vs)"
    and r: "coerceRow U colTypes vs ! i = Str r"
    by (auto simp: in_set_conv_nth)
  from i have "i < length vs" by (simp add: coerceRow_def)
  with r have "coerceCell (typeNameAt U colTypes i) (vs ! i) = Str r"
    by (simp add: coerceRow_nth)
  then show ?thesis by (rule coerceCell_text_clean)
qed

text \<open>
  Claim C1. A cell that arrives as a string is coerced to that string without its
  \<open>0x00\<close> bytes; so is a cell that arrives as a byte slice, read as a string, when the
  type name of its column is none of \<open>BIT\<close>, \<open>BOOLEAN\<close>, \<open>UNIQUEIDENTIFIER\<close> and contains
  neither \<open>BINARY\<close> nor \<open>IMAGE\<close>. No string the coercer produces, for any cell and any
  type name, contains the byte \<open>0x00\<close>.
\<close>

theorem text_cells_without_null_bytes:
  "coerceCell typeName (Str s) = Str (filter (\<lambda>c. c \<noteq> CHR 0x00) s)
   \<and> (typeName \<noteq> ''BIT'' \<and> typeName \<noteq> ''BOOLEAN'' \<and> typeName \<noteq> ''UNIQUEIDENTIFIER''
        \<and> \<not> sublist ''BINARY'' typeName \<and> \<not> sublist ''IMAGE'' typeName
        \<longrightarrow> coerceCell typeName (Bytes t)
              = Str (filter (\<lambda>c. c \<noteq> CHR 0x00) (string_of_bytes t)))
   \<and> (coerceCell typeName v = Str r \<longrightarrow> CHR 0x00 \<notin> set r)"
proof (intro conjI impI)
  show "coerceCell typeName (Str s) = Str (filter (\<lambda>c. c \<noteq> CHR 0x00) s)"
    by (simp add: coerceCell_def ReplaceAll_single)
next
  assume "typeName \<noteq> ''BIT'' \<and> typeName \<noteq> ''BOOLEAN'' \<and> typeName \<noteq> ''UNIQUEIDENTIFIER''
        \<and> \<not> sublist ''BINARY'' typeName \<and> \<not> sublist ''IMAGE'' typeName"
  then show "coerceCell typeName (Bytes t)
              = Str (filter (\<lambda>c. c \<noteq> CHR 0x00) (string_of_bytes t))"
    by (simp add: coerceCell_def ReplaceAll_single Contains_sublist)
next
  assume "coerceCell typeName v = Str r"
  then show "CHR 0x00 \<notin> set r"
    by (rule coerceCell_text_clean)
qed

theorem text_cells_without_null_bytes_witness:
  "coerceCell ''NVARCHAR'' (Str (''hola'' @ [CHR 0x00] @ ''mundo'')) = (Str ''holamundo'' :: unit cell)
   \<and> coerceCell ''CHAR'' (Bytes [0x68, 0x00, 0x69, 0x00]) = (Str ''hi'' :: unit cell)
   \<and> CHR 0x00 \<notin> set ''hi''"
proof -
  have h: "''CHAR'' \<noteq> ''BIT'' \<and> ''CHAR'' \<noteq> ''BOOLEAN'' \<and> ''CHAR'' \<noteq> ''UNIQUEIDENTIFIER''
        \<and> \<not> sublist ''BINARY'' ''CHAR'' \<and> \<not> sublist ''IMAGE'' ''CHAR''"
    by code_simp
  have f: "Str (filter (\<lambda>c. c \<noteq> CHR 0x00) (string_of_bytes [0x68, 0x00, 0x69, 0x00]))
             = (Str ''hi'' :: unit cell)"
    by code_simp
  have g: "Str (filter (\<lambda>c. c \<noteq> CHR 0x00) (''hola'' @ [CHR 0x00] @ ''mundo''))
             = (Str ''holamundo'' :: unit cell)"
    by code_simp
  note t = text_cells_without_null_bytes
             [of "''CHAR''" "''hola'' @ [CHR 0x00] @ ''mundo''" "[0x68, 0x00, 0x69, 0x00]"
                "Bytes [0x68, 0x00, 0x69, 0x00] :: unit cell" "''hi''"]
  note t2 = text_cells_without_null_bytes
             [of "''NVARCHAR''" "''hola'' @ [CHR 0x00] @ ''mundo''" "[]" "Nil :: unit cell" "[]"]
  have a: "coerceCell ''NVARCHAR'' (Str (''hola'' @ [CHR 0x00] @ ''mundo''))
             = (Str ''holamundo'' :: unit cell)"
    using t2 [THEN conjunct1] g by (rule trans)
  have "coerceCell ''CHAR'' (Bytes [0x68, 0x00, 0x69, 0x00])
          = (Str (filter (\<lambda>c. c \<noteq> CHR 0x00) (string_of_bytes [0x68, 0x00, 0x69, 0x00])) :: unit cell)"
    using t h by blast
  then have b: "coerceCell ''CHAR'' (Bytes [0x68, 0x00, 0x69, 0x00]) = (Str ''hi'' :: unit cell)"
    using f by (rule trans)
  have "CHR 0x00 \<notin> set ''hi''"
    using t b by blast
  with a b show ?thesis by blast
qed

lemma coerceCell_uuid:
  "length t = 16 \<Longrightarrow> coerceCell ''UNIQUEIDENTIFIER'' (Bytes t)
     = Str (fmt_x (slice t 0 4) @ ''-'' @ fmt_x (slice t 4 6) @ ''-''
              @ fmt_x (slice t 6 8) @ ''-'' @ fmt_x (slice t 8 10) @ ''-'' @ fmt_x (drop 10 t))"
  by (simp add: coerceCell_def)

text \<open>
  Claim C3. A byte slice of a \<open>UNIQUEIDENTIFIER\<close> column with exactly 16 bytes becomes
  the canonical lower-case 8-4-4-4-12 text whose digits are the hexadecimal digits of
  the bytes in order (reading them back gives the bytes); the bytes
  \<open>11 22 33 44 55 66 77 88 99 AA BB CC DD EE FF 00\<close> give
  \<open>11223344-5566-7788-99aa-bbccddeeff00\<close>. A slice of any other length becomes null.
\<close>

theorem uuid_cells:
  "(length t = 16 \<longrightarrow>
      (\<exists>u. coerceCell ''UNIQUEIDENTIFIER'' (Bytes t) = Str u \<and> canonical_uuid u
           \<and> filter (\<lambda>c. c \<noteq> CHR ''-'') u = fmt_x t
           \<and> unhex (filter (\<lambda>c. c \<noteq> CHR ''-'') u) = t))
   \<and> (length t \<noteq> 16 \<longrightarrow> coerceCell ''UNIQUEIDENTIFIER'' (Bytes t) = Nil)
   \<and> coerceCell ''UNIQUEIDENTIFIER''
         (Bytes [0x11, 0x22, 0x33, 0x44, 0x55, 0x66, 0x77, 0x88, 0x99, 0xAA, 0xBB, 0xCC, 0xDD,
                 0xEE, 0xFF, 0x00])
       = Str ''11223344-5566-7788-99aa-bbccddeeff00''"
proof (intro conjI impI)
  assume len: "length t = 16"
  let ?u = "fmt_x (slice t 0 4) @ ''-'' @ fmt_x (slice t 4 6) @ ''-''
              @ fmt_x (slice t 6 8) @ ''-'' @ fmt_x (slice t 8 10) @ ''-'' @ fmt_x (drop 10 t)"
  have "coerceCell ''UNIQUEIDENTIFIER'' (Bytes t) = Str ?u"
    using len by (rule coerceCell_uuid)
  moreover have "canonical_uuid ?u"
    using len by (rule uuid_shape)
  moreover have "filter (\<lambda>c. c \<noteq> CHR ''-'') ?u = fmt_x t"
    by (rule uuid_digits)
  moreover have "unhex (filter (\<lambda>c. c \<noteq> CHR ''-'') ?u) = t"
    by (simp only: uuid_digits unhex_fmt_x)
  ultimately show "\<exists>u. coerceCell ''UNIQUEIDENTIFIER'' (Bytes t) = Str u \<and> canonical_uuid u
           \<and> filter (\<lambda>c. c \<noteq> CHR ''-'') u = fmt_x t
           \<and> unhex (filter (\<lambda>c. c \<noteq> CHR ''-'') u) = t"
    by blast
next
  assume "length t \<noteq> 16"
  then show "coerceCell ''UNIQUEIDENTIFIER'' (Bytes t) = Nil"
    by (simp add: coerceCell_def)
next
  let ?ex = "[0x11, 0x22, 0x33, 0x44, 0x55, 0x66, 0x77, 0x88, 0x99, 0xAA, 0xBB, 0xCC, 0xDD,
              0xEE, 0xFF, 0x00] :: byte list"
  have len: "length ?ex = 16" by simp
  have e: "fmt_x (slice ?ex 0 4) @ ''-'' @ fmt_x (slice ?ex 4 6) @ ''-''
              @ fmt_x (slice ?ex 6 8) @ ''-'' @ fmt_x (slice ?ex 8 10) @ ''-'' @ fmt_x (drop 10 ?ex)
           = ''11223344-5566-7788-99aa-bbccddeeff00''"
    by code_simp
  show "coerceCell ''UNIQUEIDENTIFIER'' (Bytes ?ex) = Str ''11223344-5566-7788-99aa-bbccddeeff00''"
    by (simp only: coerceCell_uuid [OF len] e)
qed

theorem uuid_cells_witness:
  "(\<exists>u. coerceCell ''UNIQUEIDENTIFIER'' (Bytes (replicate 16 0xAB)) = (Str u :: unit cell)
        \<and> canonical_uuid u \<and> unhex (filter (\<lambda>c. c \<noteq> CHR ''-'') u) = replicate 16 0xAB)
   \<and> coerceCell ''UNIQUEIDENTIFIER'' (Bytes [0x11, 0x22]) = (Nil :: unit cell)"
proof -
  have a: "length (replicate 16 (0xAB :: byte)) = 16" by simp
  have b: "length [0x11, 0x22 :: byte] \<noteq> 16" by simp
  from uuid_cells [where t = "replicate 16 0xAB" and 'a = unit] a
  have "\<exists>u. coerceCell ''UNIQUEIDENTIFIER'' (Bytes (replicate 16 0xAB)) = (Str u :: unit cell)
        \<and> canonical_uuid u \<and> unhex (filter (\<lambda>c. c \<noteq> CHR ''-'') u) = replicate 16 0xAB"
    by blast
  moreover from uuid_cells [where t = "[0x11, 0x22]" and 'a = unit] b
  have "coerceCell ''UNIQUEIDENTIFIER'' (Bytes [0x11, 0x22]) = (Nil :: unit cell)"
    by blast
  ultimately show ?thesis by blast
qed

text \<open>
  Claim C4. A byte slice of a \<open>BIT\<close> or \<open>BOOLEAN\<close> column becomes the boolean that is
  true exactly when the slice has a first byte and that byte is \<open>0x01\<close>.
\<close>

theorem bit_cells:
  "typeName = ''BIT'' \<or> typeName = ''BOOLEAN''
   \<Longrightarrow> coerceCell typeName (Bytes t) = Bool (t \<noteq> [] \<and> hd t = 1)"
  by (cases t) (auto simp: coerceCell_def)

theorem bit_cells_witness:
  "coerceCell ''BIT'' (Bytes [0x01]) = (Bool True :: unit cell)
   \<and> coerceCell ''BIT'' (Bytes [0x00]) = (Bool False :: unit cell)
   \<and> coerceCell ''BOOLEAN'' (Bytes [0x02, 0x01]) = (Bool False :: unit cell)"
  using bit_cells [of "''BIT''" "[0x01]", where 'a = unit]
    bit_cells [of "''BIT''" "[0x00]", where 'a = unit]
    bit_cells [of "''BOOLEAN''" "[0x02, 0x01]", where 'a = unit]
  by simp

text \<open>
  Claim C9. The empty byte slice of a \<open>BIT\<close> or \<open>BOOLEAN\<close> column becomes the boolean
  false, not null.
\<close>

theorem empty_bit_cell:
  "coerceCell ''BIT'' (Bytes []) = Bool False \<and> coerceCell ''BOOLEAN'' (Bytes []) = Bool False"
  by (simp add: coerceCell_def)

theorem empty_bit_cell_witness:
  "coerceCell ''BIT'' (Bytes []) = (Bool False :: unit cell)
   \<and> coerceCell ''BOOLEAN'' (Bytes []) = (Bool False :: unit cell)"
  by (rule empty_bit_cell)


section \<open>The table copier\<close>



lemma copyRows_rows:
  "set (committed (copyRows U colTypes pg q n rs st))
     \<union> set (pending (copyRows U colTypes pg q n rs st))
   \<subseteq> set (committed st) \<union> set (pending st)
       \<union> coerceRow U colTypes ` {vs. Scanned vs \<in> set rs}"
proof (induction U colTypes pg q n rs st rule: copyRows.induct)
  case (1 U colTypes pg q n st)
  show ?case by simp
next
  case (2 U colTypes pg q n rs st)
  then show ?case by auto
next
  case (3 U colTypes pg q n values0 rs st)
  show ?case
  proof (cases "stmt st")
    case False
    then show ?thesis by (simp add: Let_def)
  next
    case st: True
    show ?thesis
    proof (cases "sint (count st + 1) smod BatchSize = 0")
      case b: True
      show ?thesis
      proof (cases "begin_ok pg (Suc (tx st))")
        case True
        with st b 3(1) [OF refl _ refl refl b refl] show ?thesis
          by (auto simp: Let_def split: if_splits)
      next
        case False
        with st b show ?thesis by (auto simp: Let_def)
      qed
    next
      case False
      with st 3(2) [OF refl _ refl refl False] show ?thesis
        by (auto simp: Let_def split: if_splits)
    qed
  qed
qed

lemma migrateTable_stored_cases:
  "\<exists>st0. committed st0 = [] \<and> pending st0 = []
      \<and> stored (migrateTable U schema table ms pg)
          \<in> {[],
              committed (copyRows U (select_colTypes ms table) pg
                 (insertQ schema table (length (select_cols ms table))) 0 (select_rows ms table) st0),
              committed (copyRows U (select_colTypes ms table) pg
                 (insertQ schema table (length (select_cols ms table))) 0 (select_rows ms table) st0)
              @ pending (copyRows U (select_colTypes ms table) pg
                 (insertQ schema table (length (select_cols ms table))) 0 (select_rows ms table) st0)}"
proof -
  define q where "q = insertQ schema table (length (select_cols ms table))"
  define st0 :: "'a copier" where
    "st0 = \<lparr>count = 0, tx = 0, stmt = prepare_ok pg 0 q, pending = [], committed = [],
            panicked = False\<rparr>"
  define st where "st = copyRows U (select_colTypes ms table) pg q 0 (select_rows ms table) st0"
  have "stored (migrateTable U schema table ms pg) \<in> {[], committed st, committed st @ pending st}"
    unfolding migrateTable_def Let_def
    unfolding q_def [symmetric] st0_def [symmetric] st_def [symmetric]
    by (simp split: option.splits)
  moreover have "committed st0 = [] \<and> pending st0 = []"
    by (simp add: st0_def)
  ultimately show ?thesis
    unfolding st_def q_def by blast
qed


lemma migrateTable_stored_rows:
  "set (stored (migrateTable U schema table ms pg))
   \<subseteq> coerceRow U (select_colTypes ms table) ` {vs. Scanned vs \<in> set (select_rows ms table)}"
proof -
  obtain st0 :: "'a copier" where e: "committed st0 = []" "pending st0 = []"
    and c: "stored (migrateTable U schema table ms pg)
          \<in> {[],
              committed (copyRows U (select_colTypes ms table) pg
                 (insertQ schema table (length (select_cols ms table))) 0 (select_rows ms table) st0),
              committed (copyRows U (select_colTypes ms table) pg
                 (insertQ schema table (length (select_cols ms table))) 0 (select_rows ms table) st0)
              @ pending (copyRows U (select_colTypes ms table) pg
                 (insertQ schema table (length (select_cols ms table))) 0 (select_rows ms table) st0)}"
    using migrateTable_stored_cases [of U schema table ms pg] by blast
  from copyRows_rows [of U "select_colTypes ms table" pg
        "insertQ schema table (length (select_cols ms table))" 0 "select_rows ms table" st0] e c
  show ?thesis by auto
qed

text \<open>Every stored cell that is a string is free of \<open>0x00\<close> bytes.\<close>

lemma stored_text_clean:
  assumes "row \<in> set (stored (migrateTable U schema table ms pg))" and "Str r \<in> set row"
  shows "CHR 0x00 \<notin> set r"
proof -
  from assms(1) migrateTable_stored_rows [of U schema table ms pg]
  obtain vs where "row = coerceRow U (select_colTypes ms table) vs" by blast
  with assms(2) show ?thesis by (simp add: coerceRow_text_clean)
qed

text \<open>
  Unless the cursor could not be opened, the first two statements sent to the target
  drop the table with cascade and create it again.
\<close>

lemma drop_then_create:
  assumes "ending (migrateTable U schema table ms pg) \<noteq> ReadFailed"
  shows "take 2 (statements (migrateTable U schema table ms pg))
         = [dropSQL schema table,
            createSQL U schema table (select_cols ms table) (select_colTypes ms table)]"
  using assms
  by (simp add: migrateTable_def Let_def split: option.splits if_splits)

lemma completed_statements:
  assumes "ending (migrateTable U schema table ms pg) = Completed"
  shows "statements (migrateTable U schema table ms pg)
         = [dropSQL schema table,
            createSQL U schema table (select_cols ms table) (select_colTypes ms table)]
           @ (if getPrimaryKeyColumns ms table = [] then []
              else [pkSQL schema table (getPrimaryKeyColumns ms table)])"
  using assms
  by (simp add: migrateTable_def Let_def split: option.splits if_splits)














section \<open>Constraints\<close>

lemma take_63: "(if 63 < length s then take 63 s else s) = take 63 s"
  by simp

lemma fkSQL_statement:
  "fkSQL schema tableName name col refTable refCol
     = foreign_key_statement (schema, tableName) name col (schema, refTable) refCol"
  by (simp add: fkSQL_def foreign_key_statement_def)

lemma fkName_take: "fkName tableName col refTable
    = take 63 (''fk_'' @ tableName @ ''_'' @ col @ ''_'' @ refTable)"
  unfolding fkName_def Let_def by (rule take_63)

lemma pkName_take: "pkName schema table = take 63 (''pk_'' @ schema @ ''_'' @ table)"
  unfolding pkName_def Let_def by (rule take_63)

lemma fkLoop_exact:
  "fkLoop schema tableName acc rs = acc @ concat (map (catalog_foreign_key schema tableName) rs)"
proof (induction schema tableName acc rs rule: fkLoop.induct)
  case (1 schema tableName fks)
  show ?case by simp
next
  case (2 schema tableName fks rs)
  then show ?case by (simp add: catalog_foreign_key_def)
next
  case (3 schema tableName fks fkn col refTable refCol rs)
  have c: "catalog_foreign_key schema tableName (FkRow fkn col refTable refCol)
      = [\<lparr>ConstraintName = fkName tableName col refTable,
          SQL = fkSQL schema tableName (fkName tableName col refTable) col refTable refCol\<rparr>]"
    by (simp only: catalog_foreign_key_def fk_row.case fkName_take fkSQL_statement)
  from 3 [OF refl refl] show ?case
    by (simp add: Let_def c)
qed

lemma getForeignKeys_exact:
  "getForeignKeys ms schema table
     = (case fk_rows ms table of
          None \<Rightarrow> []
        | Some rs \<Rightarrow> concat (map (catalog_foreign_key schema table) rs))"
  by (simp add: getForeignKeys_def fkLoop_exact split: option.splits)

lemma migrateTable_fks_exact:
  "fks (migrateTable U schema table ms pg)
     = (if ending (migrateTable U schema table ms pg) = Completed
        then getForeignKeys ms schema table else [])"
  by (simp add: migrateTable_def Let_def split: option.splits)

lemma pkSQL_statement:
  "pkSQL schema table cols
     = primary_key_statement (schema, table) (take 63 (''pk_'' @ schema @ ''_'' @ table)) cols"
  by (simp add: pkSQL_def primary_key_statement_def pkName_take del: take_append)

lemma migrateTable_statements:
  "statements (migrateTable U schema table ms pg)
   \<in> {[],
      [dropSQL schema table,
       createSQL U schema table (select_cols ms table) (select_colTypes ms table)],
      [dropSQL schema table,
       createSQL U schema table (select_cols ms table) (select_colTypes ms table),
       pkSQL schema table (getPrimaryKeyColumns ms table)]}"
  by (simp add: migrateTable_def Let_def split: option.splits)

lemma catalog_foreign_key_length:
  "fk \<in> set (concat (map (catalog_foreign_key schema table) rs))
   \<Longrightarrow> length (ConstraintName fk) \<le> 63"
  by (auto simp: catalog_foreign_key_def split: fk_row.splits)


lemma fkLoop_members:
  "fk \<in> set (fkLoop schema tableName acc rs) \<Longrightarrow>
     fk \<in> set acc
     \<or> (\<exists>col refTable refCol.
           fk = \<lparr>ConstraintName = fkName tableName col refTable,
                  SQL = fkSQL schema tableName (fkName tableName col refTable) col refTable refCol\<rparr>)"
proof (induction schema tableName acc rs rule: fkLoop.induct)
  case (1 schema tableName fks)
  then show ?case by simp
next
  case (2 schema tableName fks rs)
  then show ?case by simp
next
  case (3 schema tableName fks fkn col refTable refCol rs)
  from 3(1) [OF refl refl] 3(2) show ?case
    by (auto simp: Let_def)
qed

lemma getForeignKeys_members:
  "fk \<in> set (getForeignKeys db schema tableName) \<Longrightarrow>
     \<exists>col refTable refCol.
        fk = \<lparr>ConstraintName = fkName tableName col refTable,
               SQL = fkSQL schema tableName (fkName tableName col refTable) col refTable refCol\<rparr>"
  using fkLoop_members [of fk schema tableName "[]"]
  by (auto simp: getForeignKeys_def split: option.splits)

lemma migrateTable_fks:
  "fks (migrateTable U schema table ms pg) = []
   \<or> fks (migrateTable U schema table ms pg) = getForeignKeys ms schema table"
  by (simp add: migrateTable_def Let_def split: option.splits)

text \<open>
  Claim C7. The name of a primary-key constraint is \<open>pk_<namespace>_<table>\<close> cut to its
  first 63 characters (bytes), the name of a foreign-key constraint is
  \<open>fk_<table>_<column>_<referenced table>\<close> cut likewise. The foreign keys a copy
  returns are, in catalog order, the ones its catalog rows stand for, each named from
  the column and the referenced table of its own row, and none when the copy does not
  complete; each name has at most 63 characters. The only statement with a constraint
  that the copy sends is the primary-key statement with the name above, sent third by
  a completed copy of a table with a primary key.
\<close>

theorem constraint_names:
  "pkName schema table = take 63 (''pk_'' @ schema @ ''_'' @ table)
   \<and> length (pkName schema table) \<le> 63
   \<and> fkName table col refTable = take 63 (''fk_'' @ table @ ''_'' @ col @ ''_'' @ refTable)
   \<and> length (fkName table col refTable) \<le> 63
   \<and> getForeignKeys ms schema table
       = (case fk_rows ms table of
            None \<Rightarrow> []
          | Some rs \<Rightarrow> concat (map (catalog_foreign_key schema table) rs))
   \<and> fks (migrateTable U schema table ms pg)
       = (if ending (migrateTable U schema table ms pg) = Completed
          then getForeignKeys ms schema table else [])
   \<and> (\<forall>fk \<in> set (fks (migrateTable U schema table ms pg)). length (ConstraintName fk) \<le> 63)
   \<and> statements (migrateTable U schema table ms pg)
       \<in> {[],
          [dropSQL schema table,
           createSQL U schema table (select_cols ms table) (select_colTypes ms table)],
          [dropSQL schema table,
           createSQL U schema table (select_cols ms table) (select_colTypes ms table),
           primary_key_statement (schema, table) (take 63 (''pk_'' @ schema @ ''_'' @ table))
             (getPrimaryKeyColumns ms table)]}
   \<and> (ending (migrateTable U schema table ms pg) = Completed
        \<longrightarrow> statements (migrateTable U schema table ms pg)
            = [dropSQL schema table,
               createSQL U schema table (select_cols ms table) (select_colTypes ms table)]
              @ (if getPrimaryKeyColumns ms table = [] then []
                 else [primary_key_statement (schema, table)
                         (take 63 (''pk_'' @ schema @ ''_'' @ table))
                         (getPrimaryKeyColumns ms table)]))"
proof (intro conjI impI ballI)
  show "pkName schema table = take 63 (''pk_'' @ schema @ ''_'' @ table)"
    by (rule pkName_take)
  then show "length (pkName schema table) \<le> 63"
    by (metis length_take min.cobounded2)
  show f: "fkName table col refTable = take 63 (''fk_'' @ table @ ''_'' @ col @ ''_'' @ refTable)"
    by (rule fkName_take)
  then show "length (fkName table col refTable) \<le> 63"
    by (metis length_take min.cobounded2)
  show "getForeignKeys ms schema table
       = (case fk_rows ms table of
            None \<Rightarrow> []
          | Some rs \<Rightarrow> concat (map (catalog_foreign_key schema table) rs))"
    by (rule getForeignKeys_exact)
  show "fks (migrateTable U schema table ms pg)
       = (if ending (migrateTable U schema table ms pg) = Completed
          then getForeignKeys ms schema table else [])"
    by (rule migrateTable_fks_exact)
  show "statements (migrateTable U schema table ms pg)
       \<in> {[],
          [dropSQL schema table,
           createSQL U schema table (select_cols ms table) (select_colTypes ms table)],
          [dropSQL schema table,
           createSQL U schema table (select_cols ms table) (select_colTypes ms table),
           primary_key_statement (schema, table) (take 63 (''pk_'' @ schema @ ''_'' @ table))
             (getPrimaryKeyColumns ms table)]}"
    using migrateTable_statements [of U schema table ms pg] by (simp only: pkSQL_statement)
next
  fix fk
  assume "fk \<in> set (fks (migrateTable U schema table ms pg))"
  then have "fk \<in> set (getForeignKeys ms schema table)"
    by (simp add: migrateTable_fks_exact split: if_splits)
  then show "length (ConstraintName fk) \<le> 63"
    using catalog_foreign_key_length [of fk schema table]
    by (auto simp: getForeignKeys_exact split: option.splits)
next
  assume "ending (migrateTable U schema table ms pg) = Completed"
  then show "statements (migrateTable U schema table ms pg)
            = [dropSQL schema table,
               createSQL U schema table (select_cols ms table) (select_colTypes ms table)]
              @ (if getPrimaryKeyColumns ms table = [] then []
                 else [primary_key_statement (schema, table)
                         (take 63 (''pk_'' @ schema @ ''_'' @ table))
                         (getPrimaryKeyColumns ms table)])"
    by (simp only: completed_statements pkSQL_statement)
qed

theorem constraint_names_witness:
  "map ConstraintName (fks (migrateTable no_unicode ''vin'' ''t'' one_row_source accepting_target))
     = [''fk_t_owner_id_owners'']
   \<and> statements (migrateTable no_unicode ''vin'' ''t'' one_row_source accepting_target) ! 2
     = primary_key_statement (''vin'', ''t'') ''pk_vin_t'' [''id'']
   \<and> length (pkName ''declaracion'' (replicate 80 CHR ''x'')) = 63
   \<and> hd (fks (migrateTable no_unicode ''vin'' ''t'' one_row_source accepting_target))
       \<in> set (fks (migrateTable no_unicode ''vin'' ''t'' one_row_source accepting_target))
   \<and> length (ConstraintName
         (hd (fks (migrateTable no_unicode ''vin'' ''t'' one_row_source accepting_target)))) \<le> 63"
proof -
  let ?r = "migrateTable no_unicode ''vin'' ''t'' one_row_source accepting_target"
  note n = constraint_names [where schema = "''vin''" and table = "''t''" and U = no_unicode
      and ms = one_row_source and pg = accepting_target and col = "''owner_id''"
      and refTable = "''owners''"]
  note l = constraint_names [where schema = "''declaracion''" and table = "replicate 80 CHR ''x''"
      and U = no_unicode and ms = one_row_source and pg = accepting_target
      and col = "''owner_id''" and refTable = "''owners''"]
  note n5 = n [THEN conjunct2, THEN conjunct2, THEN conjunct2, THEN conjunct2]
  have e: "ending ?r = Completed"
    by code_simp
  have c: "map ConstraintName
             (case fk_rows one_row_source ''t'' of
                None \<Rightarrow> []
              | Some rs \<Rightarrow> concat (map (catalog_foreign_key ''vin'' ''t'') rs))
           = [''fk_t_owner_id_owners'']"
    by code_simp
  have "fks ?r = getForeignKeys one_row_source ''vin'' ''t''"
    using n5 [THEN conjunct2, THEN conjunct1] e by simp
  then have "fks ?r = (case fk_rows one_row_source ''t'' of
                None \<Rightarrow> []
              | Some rs \<Rightarrow> concat (map (catalog_foreign_key ''vin'' ''t'') rs))"
    using n5 [THEN conjunct1] by (rule trans)
  with c have a: "map ConstraintName (fks ?r) = [''fk_t_owner_id_owners'']"
    by simp
  have k1: "getPrimaryKeyColumns one_row_source ''t'' = [''id'']"
    by code_simp
  have k2: "take 63 (''pk_'' @ ''vin'' @ ''_'' @ ''t'') = ''pk_vin_t''"
    by simp
  have "statements ?r
      = [dropSQL ''vin'' ''t'',
         createSQL no_unicode ''vin'' ''t'' (select_cols one_row_source ''t'')
           (select_colTypes one_row_source ''t'')]
        @ (if getPrimaryKeyColumns one_row_source ''t'' = [] then []
           else [primary_key_statement (''vin'', ''t'')
                   (take 63 (''pk_'' @ ''vin'' @ ''_'' @ ''t''))
                   (getPrimaryKeyColumns one_row_source ''t'')])"
    using n5 [THEN conjunct2, THEN conjunct2, THEN conjunct2, THEN conjunct2, THEN mp, OF e] .
  then have b: "statements ?r ! 2 = primary_key_statement (''vin'', ''t'') ''pk_vin_t'' [''id'']"
    by (simp only: k1 k2) simp
  have d: "length (pkName ''declaracion'' (replicate 80 CHR ''x'')) = 63"
    using l [THEN conjunct1] by simp
  have m: "hd (fks ?r) \<in> set (fks ?r)"
    by code_simp
  have "length (ConstraintName (hd (fks ?r))) \<le> 63"
    using n5 [THEN conjunct2, THEN conjunct2, THEN conjunct1] m by blast
  with a b d m show ?thesis by blast
qed

text \<open>
  Claim C10. Every foreign-key statement the copier of a table returns names the origin
  table and the referenced table in the same namespace, the one the table is copied
  into; so does every statement that \<open>getForeignKeys\<close> builds.
\<close>

theorem foreign_keys_stay_in_namespace:
  "(\<forall>fk \<in> set (fks (migrateTable U schema table ms pg)).
      \<exists>col refTable refCol.
        SQL fk = foreign_key_statement (schema, table) (ConstraintName fk) col (schema, refTable) refCol)
   \<and> (\<forall>fk \<in> set (getForeignKeys ms schema table).
      \<exists>col refTable refCol.
        SQL fk = foreign_key_statement (schema, table) (ConstraintName fk) col (schema, refTable) refCol)"
proof -
  have g: "\<exists>col refTable refCol.
        SQL fk = foreign_key_statement (schema, table) (ConstraintName fk) col (schema, refTable) refCol"
    if "fk \<in> set (getForeignKeys ms schema table)" for fk
  proof -
    from that obtain c r rc where
      "fk = \<lparr>ConstraintName = fkName table c r,
              SQL = fkSQL schema table (fkName table c r) c r rc\<rparr>"
      using getForeignKeys_members by blast
    then have "SQL fk = foreign_key_statement (schema, table) (ConstraintName fk) c (schema, r) rc"
      by (simp add: fkSQL_statement)
    then show ?thesis by blast
  qed
  moreover have "fk \<in> set (getForeignKeys ms schema table)"
    if "fk \<in> set (fks (migrateTable U schema table ms pg))" for fk
    using that migrateTable_fks [of U schema table ms pg] by auto
  ultimately show ?thesis by blast
qed

theorem foreign_keys_stay_in_namespace_witness:
  "hd (fks (migrateTable no_unicode ''vin'' ''t'' one_row_source accepting_target))
       \<in> set (fks (migrateTable no_unicode ''vin'' ''t'' one_row_source accepting_target))
   \<and> (\<exists>col refTable refCol.
        SQL (hd (fks (migrateTable no_unicode ''vin'' ''t'' one_row_source accepting_target)))
        = foreign_key_statement (''vin'', ''t'')
            (ConstraintName
               (hd (fks (migrateTable no_unicode ''vin'' ''t'' one_row_source accepting_target))))
            col (''vin'', refTable) refCol)
   \<and> SQL (hd (fks (migrateTable no_unicode ''vin'' ''t'' one_row_source accepting_target)))
       = foreign_key_statement (''vin'', ''t'') ''fk_t_owner_id_owners'' ''owner_id''
           (''vin'', ''owners'') ''id''"
proof -
  have m: "hd (fks (migrateTable no_unicode ''vin'' ''t'' one_row_source accepting_target))
       \<in> set (fks (migrateTable no_unicode ''vin'' ''t'' one_row_source accepting_target))"
    by code_simp
  have e: "SQL (hd (fks (migrateTable no_unicode ''vin'' ''t'' one_row_source accepting_target)))
       = foreign_key_statement (''vin'', ''t'') ''fk_t_owner_id_owners'' ''owner_id''
           (''vin'', ''owners'') ''id''"
    by code_simp
  from foreign_keys_stay_in_namespace
         [of no_unicode "''vin''" "''t''" one_row_source accepting_target] m
  have "\<exists>col refTable refCol.
        SQL (hd (fks (migrateTable no_unicode ''vin'' ''t'' one_row_source accepting_target)))
        = foreign_key_statement (''vin'', ''t'')
            (ConstraintName
               (hd (fks (migrateTable no_unicode ''vin'' ''t'' one_row_source accepting_target))))
            col (''vin'', refTable) refCol"
    by blast
  with m e show ?thesis by blast
qed

end
